theory Spec2Isabelle
  imports Complex_Main
begin

section \<open>Errors raised by the notebook's code\<close>

text \<open>
  The notebook \<^verbatim>\<open>main.ipynb\<close> raises no exception of its own; the ones it
  can meet come from the calls it makes: a Boost.Python \<^verbatim>\<open>ArgumentError\<close>
  when an RDKit function receives \<^verbatim>\<open>None\<close> where a molecule is expected,
  and a \<^verbatim>\<open>ValueError\<close> for arrays of the wrong shape.
\<close>

datatype error = ArgumentError | ValueError

section \<open>The fingerprint encoder (cells 5, 9, 10 and 13)\<close>

text \<open>
  The RDKit calls of \<^verbatim>\<open>smiles_to_fp\<close> are taken as parameters: the parser
  \<^verbatim>\<open>Chem.MolFromSmiles\<close>, which returns \<^verbatim>\<open>None\<close> for a descriptor it
  cannot parse, and the two fingerprint generators, which receive whatever the
  parser returned (possibly \<^verbatim>\<open>None\<close>) and either raise or return a bit
  vector. A bit vector (\<^verbatim>\<open>ExplicitBitVect\<close>) is a list of booleans.
\<close>

record 'mol rdkit =
  MolFromSmiles :: "string \<Rightarrow> 'mol option"
  GetMorganFingerprintAsBitVect :: "'mol option \<Rightarrow> nat \<Rightarrow> nat \<Rightarrow> error + bool list"
  GenMACCSKeys :: "'mol option \<Rightarrow> error + bool list"


definition rdkit_bit_lengths :: "'mol rdkit \<Rightarrow> bool" where
  "rdkit_bit_lengths lib \<longleftrightarrow>
     (\<forall>mol radius n_bits bv.
        GetMorganFingerprintAsBitVect lib mol radius n_bits = Inr bv \<longrightarrow> length bv = n_bits) \<and>
     (\<forall>mol bv. GenMACCSKeys lib mol = Inr bv \<longrightarrow> length bv = 167)"

text \<open>
  \<^verbatim>\<open>DataStructs.ConvertToNumpyArray(bv, arr)\<close> resizes \<^verbatim>\<open>arr\<close> to the number
  of bits of \<^verbatim>\<open>bv\<close> and writes each bit as the integer 0 or 1.
\<close>

definition ConvertToNumpyArray :: "bool list \<Rightarrow> int list" where
  "ConvertToNumpyArray bv = map (\<lambda>b. if b then 1 else 0) bv"

text \<open>
  \<^verbatim>\<open>
  def smiles_to_fp(smiles, radius=2, n_bits=2000):
      mol = Chem.MolFromSmiles(smiles)
      ecfp = AllChem.GetMorganFingerprintAsBitVect(mol, radius, nBits=n_bits)
      maccs = MACCSkeys.GenMACCSKeys(mol)
      arr_ecfp = np.zeros((0,), dtype=int)
      arr_maccs = np.zeros((0,), dtype=int)
      DataStructs.ConvertToNumpyArray(ecfp, arr_ecfp)
      DataStructs.ConvertToNumpyArray(maccs, arr_maccs)
      conjoint_fp = np.concatenate([arr_ecfp, arr_maccs])
      return conjoint_fp
  \<close>
  There is no \<^verbatim>\<open>try\<close> in the function: an exception of either generator
  leaves it at once.
\<close>

definition smiles_to_fp :: "'mol rdkit \<Rightarrow> string \<Rightarrow> nat \<Rightarrow> nat \<Rightarrow> error + int list" where
  "smiles_to_fp lib smiles radius n_bits =
     (let mol = MolFromSmiles lib smiles in
      case GetMorganFingerprintAsBitVect lib mol radius n_bits of
        Inl e \<Rightarrow> Inl e
      | Inr ecfp \<Rightarrow>
          (case GenMACCSKeys lib mol of
             Inl e \<Rightarrow> Inl e
           | Inr maccs \<Rightarrow>
               (let arr_ecfp = ConvertToNumpyArray ecfp;
                    arr_maccs = ConvertToNumpyArray maccs
                in Inr (arr_ecfp @ arr_maccs))))"

text \<open>
  \<^verbatim>\<open>
  def convert_smiles_to_fingerprints(smiles_array):
      return np.array([smiles_to_fp(s) for s in smiles_array])
  \<close>
  The comprehension calls \<^verbatim>\<open>smiles_to_fp\<close> with its defaults (radius 2, 2000
  bits) on each descriptor in order; the first exception ends it.
\<close>

fun convert_smiles_to_fingerprints :: "'mol rdkit \<Rightarrow> string list \<Rightarrow> error + int list list" where
  "convert_smiles_to_fingerprints lib [] = Inr []"
| "convert_smiles_to_fingerprints lib (s # smiles_array) =
     (case smiles_to_fp lib s 2 2000 of
        Inl e \<Rightarrow> Inl e
      | Inr fp \<Rightarrow>
          (case convert_smiles_to_fingerprints lib smiles_array of
             Inl e \<Rightarrow> Inl e
           | Inr fps \<Rightarrow> Inr (fp # fps)))"

text \<open>
  \<^verbatim>\<open>load_and_preprocess_data\<close> reads a table indexed by \<^verbatim>\<open>Id\<close> and converts
  its \<^verbatim>\<open>smiles\<close> column; the table read from the file is the argument here,
  as its rows (identifier, descriptor).
\<close>

definition load_and_preprocess_data :: "'mol rdkit \<Rightarrow> (nat \<times> string) list \<Rightarrow> error + int list list" where
  "load_and_preprocess_data lib df =
     (let smiles = map snd df in convert_smiles_to_fingerprints lib smiles)"


text \<open>
  A small stand-in for RDKit on which the properties below are exercised. A
  descriptor made of the letters C, N and O only is a molecule; so is the
  empty descriptor, for which the parser returns the molecule without atoms,
  as \<^verbatim>\<open>Chem.MolFromSmiles('')\<close> does. Bit \<open>i\<close> of the Morgan fingerprint is
  set when \<open>i\<close> is below the number of atoms, and bit \<open>i\<close> of the keys when
  \<open>i\<close> is the number of atoms and not 0 (key 0 is never set).
\<close>

definition toy_parse :: "string \<Rightarrow> string option" where
  "toy_parse s = (if list_all (\<lambda>c. c \<in> set ''CNO'') s then Some s else None)"

definition toy_morgan :: "string option \<Rightarrow> nat \<Rightarrow> nat \<Rightarrow> error + bool list" where
  "toy_morgan mol radius n_bits =
     (case mol of None \<Rightarrow> Inl ArgumentError
      | Some m \<Rightarrow> Inr (map (\<lambda>i. i < length m) [0..<n_bits]))"

definition toy_maccs :: "string option \<Rightarrow> error + bool list" where
  "toy_maccs mol =
     (case mol of None \<Rightarrow> Inl ArgumentError
      | Some m \<Rightarrow> Inr (map (\<lambda>i. 0 < i \<and> i = length m) [0..<167]))"

definition toy_rdkit :: "string rdkit" where
  "toy_rdkit = \<lparr>MolFromSmiles = toy_parse, GetMorganFingerprintAsBitVect = toy_morgan,
     GenMACCSKeys = toy_maccs\<rparr>"

section \<open>Scoring and selecting the regressor (cells 6, 40 and 42)\<close>

text \<open>
  \<^verbatim>\<open>
  def rmse(x1, x2):
      return np.sqrt(mean_squared_error(x1, x2))
  \<close>
  \<^verbatim>\<open>mean_squared_error\<close> rejects arrays of different lengths and empty
  arrays with a \<^verbatim>\<open>ValueError\<close>; otherwise it is the mean of the squared
  differences. Scores are modelled as real numbers.
\<close>

definition mean_squared_error :: "real list \<Rightarrow> real list \<Rightarrow> error + real" where
  "mean_squared_error x1 x2 =
     (if length x1 \<noteq> length x2 \<or> x1 = [] then Inl ValueError
      else Inr (sum_list (map2 (\<lambda>a b. (a - b)\<^sup>2) x1 x2) / real (length x1)))"

definition rmse :: "real list \<Rightarrow> real list \<Rightarrow> error + real" where
  "rmse x1 x2 =
     (case mean_squared_error x1 x2 of Inl e \<Rightarrow> Inl e | Inr m \<Rightarrow> Inr (sqrt m))"

text \<open>The two fitted candidates of cells 37 and 38.\<close>

datatype regressor = LinearRegression | XGBRegressor

text \<open>
  \<^verbatim>\<open>
  if lr_rmse < xgb_rmse:
      best_model = lr
  else:
      best_model = xgb
  \<close>
\<close>

definition select_best :: "real \<Rightarrow> real \<Rightarrow> regressor" where
  "select_best lr_rmse xgb_rmse =
     (if lr_rmse < xgb_rmse then LinearRegression else XGBRegressor)"

text \<open>
  Cells 40 and 42 in sequence: both candidates' predictions on the validation
  subset are scored against \<^verbatim>\<open>y_val\<close>, then the selection is made. The result
  keeps both scores beside the selected model.
\<close>

definition test_and_select ::
  "real list \<Rightarrow> real list \<Rightarrow> real list \<Rightarrow> error + (real \<times> real \<times> regressor)" where
  "test_and_select y_val lr_pred xgb_pred =
     (case rmse y_val lr_pred of
        Inl e \<Rightarrow> Inl e
      | Inr lr_rmse \<Rightarrow>
          (case rmse y_val xgb_pred of
             Inl e \<Rightarrow> Inl e
           | Inr xgb_rmse \<Rightarrow> Inr (lr_rmse, xgb_rmse, select_best lr_rmse xgb_rmse)))"

section \<open>The representation learner's networks (cells 17, 18, 20 and 22)\<close>

text \<open>
  A Keras model built with the functional API from an \<^verbatim>\<open>Input\<close> of a given
  width and a chain of layers. The layers are the four kinds the notebook
  uses; \<^verbatim>\<open>Dense(units)\<close> without an activation is linear.
\<close>

datatype activation = Linear | Softmax

datatype layer = Dense nat activation | BatchNormalization | LeakyReLU real | Dropout real

record Model =
  input_shape :: nat
  layers :: "layer list"
  name :: string

text \<open>
  \<^verbatim>\<open>
  def create_encoder(input_dim=2167):
      inputs = Input(shape=(input_dim,))
      x = Dense(2167)(inputs)
      x = BatchNormalization()(x)
      x = LeakyReLU(alpha=0.01)(x)
      x = Dropout(0.5)(x)
      x = Dense(2500)(x)
      x = BatchNormalization()(x)
      x = LeakyReLU(alpha=0.01)(x)
      x = Dropout(0.5)(x)
      x = Dense(2167,'linear')(x)
      return Model(inputs, x, name='encoder')
  \<close>
\<close>

definition create_encoder :: "nat \<Rightarrow> Model" where
  "create_encoder input_dim =
     \<lparr>input_shape = input_dim,
      layers = [Dense 2167 Linear, BatchNormalization, LeakyReLU 0.01, Dropout 0.5,
                Dense 2500 Linear, BatchNormalization, LeakyReLU 0.01, Dropout 0.5,
                Dense 2167 Linear],
      name = ''encoder''\<rparr>"

text \<open>
  \<^verbatim>\<open>
  def create_decoder(input_dim=2167):
      inputs = Input(shape=(input_dim,))
      x = Dense(2000)(inputs)
      x = BatchNormalization()(x)
      x = LeakyReLU(alpha=0.01)(x)
      x = Dropout(0.5)(x)
      decoded = Dense(2167, activation='softmax')(x)
      return Model(inputs, decoded, name='decoder')
  \<close>
\<close>

definition create_decoder :: "nat \<Rightarrow> Model" where
  "create_decoder input_dim =
     \<lparr>input_shape = input_dim,
      layers = [Dense 2000 Linear, BatchNormalization, LeakyReLU 0.01, Dropout 0.5,
                Dense 2167 Softmax],
      name = ''decoder''\<rparr>"

text \<open>
  \<^verbatim>\<open>
  def create_predictor(input_dim=2167):
      inputs = Input(shape=(input_dim,))
      x = Dense(256)(inputs)
      x = BatchNormalization()(x)
      x = LeakyReLU(alpha=0.01)(x)
      x = Dropout(0.5)(x)
      output = Dense(1, 'linear')(x)
      return Model(inputs, output, name='predictor')
  \<close>
\<close>

definition create_predictor :: "nat \<Rightarrow> Model" where
  "create_predictor input_dim =
     \<lparr>input_shape = input_dim,
      layers = [Dense 256 Linear, BatchNormalization, LeakyReLU 0.01, Dropout 0.5,
                Dense 1 Linear],
      name = ''predictor''\<rparr>"

text \<open>
  Shape inference: a dense layer's output has as many entries as it has units,
  the other layers keep the width of their input.
\<close>

fun compute_output_shape :: "nat \<Rightarrow> layer list \<Rightarrow> nat" where
  "compute_output_shape d [] = d"
| "compute_output_shape d (Dense units act # ls) = compute_output_shape units ls"
| "compute_output_shape d (l # ls) = compute_output_shape d ls"

definition output_shape :: "Model \<Rightarrow> nat" where
  "output_shape m = compute_output_shape (input_shape m) (layers m)"

text \<open>
  \<^verbatim>\<open>
  def create_combined_model(input_dim=2167):
      encoder = create_encoder()
      decoder = create_decoder()
      predictor = create_predictor()
      inputs = Input(shape=(input_dim,))
      encoded = encoder(inputs)
      decoded = decoder(encoded)
      predicted = predictor(encoded)
      model = Model(inputs, [decoded, predicted], name='combined')
      model.compile(...)
      return model, encoder
  \<close>
  The three parts are created with their default width 2167, whatever
  \<^verbatim>\<open>input_dim\<close> is; applying a model to a tensor of another width than its
  input raises a \<^verbatim>\<open>ValueError\<close>.
\<close>

record Combined =
  combined_input :: nat
  combined_encoder :: Model
  combined_decoder :: Model
  combined_predictor :: Model

definition create_combined_model :: "nat \<Rightarrow> error + (Combined \<times> Model)" where
  "create_combined_model input_dim =
     (let encoder = create_encoder 2167;
          decoder = create_decoder 2167;
          predictor = create_predictor 2167
      in if input_dim \<noteq> input_shape encoder then Inl ValueError
         else if output_shape encoder \<noteq> input_shape decoder then Inl ValueError
         else if output_shape encoder \<noteq> input_shape predictor then Inl ValueError
         else Inr (\<lparr>combined_input = input_dim, combined_encoder = encoder,
                     combined_decoder = decoder, combined_predictor = predictor\<rparr>, encoder))"

subsection \<open>Applying a model\<close>

text \<open>
  The weights of a layer, indexed from 0: a dense layer's kernel (input index,
  unit) and bias, a batch normalisation's scale, offset and moving statistics.
  The shapes are those of the architecture; the values are any reals, so the
  same model covers freshly initialised and trained weights. The entries of a
  tensor are written as real numbers and computed without rounding; the
  program computes them in float32, so only the shapes of the results, not
  their values, are a matter for the properties proved of this model.
\<close>

record layer_weights =
  kernel :: "nat \<Rightarrow> nat \<Rightarrow> real"
  bias :: "nat \<Rightarrow> real"
  gamma :: "nat \<Rightarrow> real"
  beta :: "nat \<Rightarrow> real"
  moving_mean :: "nat \<Rightarrow> real"
  moving_variance :: "nat \<Rightarrow> real"

type_synonym weights = "nat \<Rightarrow> layer_weights"

definition activation_apply :: "activation \<Rightarrow> real list \<Rightarrow> real list" where
  "activation_apply act z =
     (case act of Linear \<Rightarrow> z
      | Softmax \<Rightarrow> map (\<lambda>v. exp v / sum_list (map exp z)) z)"

definition dense_row :: "layer_weights \<Rightarrow> nat \<Rightarrow> real list \<Rightarrow> real list" where
  "dense_row lw units x =
     map (\<lambda>j. (\<Sum>i\<leftarrow>[0..<length x]. x ! i * kernel lw i j) + bias lw j) [0..<units]"

definition batch_mean :: "real list list \<Rightarrow> nat \<Rightarrow> real" where
  "batch_mean xs j = (\<Sum>x\<leftarrow>xs. x ! j) / real (length xs)"

definition batch_variance :: "real list list \<Rightarrow> nat \<Rightarrow> real" where
  "batch_variance xs j = (\<Sum>x\<leftarrow>xs. (x ! j - batch_mean xs j)\<^sup>2) / real (length xs)"

definition normalize_row ::
  "layer_weights \<Rightarrow> (nat \<Rightarrow> real) \<Rightarrow> (nat \<Rightarrow> real) \<Rightarrow> real list \<Rightarrow> real list" where
  "normalize_row lw mean var x =
     map (\<lambda>(j, v). gamma lw j * (v - mean j) / sqrt (var j + 0.001) + beta lw j)
       (zip [0..<length x] x)"

text \<open>
  A layer applied to a batch (a list of rows). The mode is \<open>None\<close> for
  \<^verbatim>\<open>training=False\<close> and \<open>Some keep\<close> for \<^verbatim>\<open>training=True\<close>, where
  \<open>keep r c\<close> tells whether the dropout mask drawn for this layer keeps entry
  \<open>c\<close> of row \<open>r\<close>. In training a batch normalisation uses the statistics of
  the batch and a dropout zeroes the entries its mask drops and rescales the
  others by \<open>1 / (1 - rate)\<close>; in inference the former uses its moving
  statistics and the latter is the identity.
\<close>

fun layer_call ::
  "(nat \<Rightarrow> nat \<Rightarrow> bool) option \<Rightarrow> layer_weights \<Rightarrow> layer \<Rightarrow> real list list \<Rightarrow> real list list" where
  "layer_call mode lw (Dense units act) xs =
     map (\<lambda>x. activation_apply act (dense_row lw units x)) xs"
| "layer_call mode lw BatchNormalization xs =
     (case mode of
        None \<Rightarrow> map (normalize_row lw (moving_mean lw) (moving_variance lw)) xs
      | Some keep \<Rightarrow> map (normalize_row lw (batch_mean xs) (batch_variance xs)) xs)"
| "layer_call mode lw (LeakyReLU alpha) xs =
     map (map (\<lambda>v. if 0 \<le> v then v else alpha * v)) xs"
| "layer_call mode lw (Dropout rate) xs =
     (case mode of
        None \<Rightarrow> xs
      | Some keep \<Rightarrow>
          map (\<lambda>(r, x). map (\<lambda>(c, v). if keep r c then v / (1 - rate) else 0)
                          (zip [0..<length x] x))
            (zip [0..<length xs] xs))"

text \<open>The layers in sequence; \<open>k\<close> is the index of the first one.\<close>

fun call_layers ::
  "(nat \<Rightarrow> nat \<Rightarrow> nat \<Rightarrow> bool) option \<Rightarrow> weights \<Rightarrow> nat \<Rightarrow> layer list \<Rightarrow>
   real list list \<Rightarrow> real list list" where
  "call_layers mode w k [] xs = xs"
| "call_layers mode w k (l # ls) xs =
     call_layers mode w (Suc k) ls (layer_call (map_option (\<lambda>noise. noise k) mode) (w k) l xs)"

text \<open>
  \<^verbatim>\<open>model(x, training=...)\<close>: rows of another width than the model's input
  are rejected.
\<close>

definition call_model ::
  "Model \<Rightarrow> weights \<Rightarrow> (nat \<Rightarrow> nat \<Rightarrow> nat \<Rightarrow> bool) option \<Rightarrow> real list list \<Rightarrow>
   error + real list list" where
  "call_model m w mode xs =
     (if \<exists>x\<in>set xs. length x \<noteq> input_shape m then Inl ValueError
      else Inr (call_layers mode w 0 (layers m) xs))"

text \<open>
  Weights on which the properties below are exercised: identity kernels, zero
  biases, and Keras's initial values for a batch normalisation (scale 1,
  offset 0, moving mean 0, moving variance 1).
\<close>

definition example_weights :: weights where
  "example_weights = (\<lambda>k. \<lparr>kernel = (\<lambda>i j. if i = j then 1 else 0), bias = (\<lambda>j. 0),
     gamma = (\<lambda>j. 1), beta = (\<lambda>j. 0), moving_mean = (\<lambda>j. 0),
     moving_variance = (\<lambda>j. 1)\<rparr>)"

section \<open>Training with early stopping (cells 28 and 30)\<close>

text \<open>
  The monitored quantity \<^verbatim>\<open>val_predictor_rmse\<close> is a floating-point number:
  a finite value, an infinity, or NaN when the training has diverged. The
  callback compares such values with \<^verbatim>\<open>np.less\<close> (or \<^verbatim>\<open>np.greater\<close>), for
  which every comparison with NaN is false; \<open>np_less_equal\<close> is the
  comparison \<^verbatim>\<open><=\<close> on the same values.
\<close>

datatype npfloat = Finite real | PosInf | NegInf | NaN

fun np_less :: "npfloat \<Rightarrow> npfloat \<Rightarrow> bool" where
  "np_less (Finite a) (Finite b) = (a < b)"
| "np_less (Finite a) PosInf = True"
| "np_less NegInf (Finite b) = True"
| "np_less NegInf PosInf = True"
| "np_less x y = False"

definition np_greater :: "npfloat \<Rightarrow> npfloat \<Rightarrow> bool" where
  "np_greater x y = np_less y x"

definition np_less_equal :: "npfloat \<Rightarrow> npfloat \<Rightarrow> bool" where
  "np_less_equal x y \<longleftrightarrow> np_less x y \<or> (x = y \<and> x \<noteq> NaN)"

text \<open>
  \<^verbatim>\<open>
  early_stopping = EarlyStopping(monitor='val_predictor_rmse', patience=20,
                                 restore_best_weights=True)
  history = model.fit(..., validation_split=0.1, epochs=100, batch_size=32,
                      callbacks=callbacks)
  \<close>
  The callback's arguments. The others are left at their defaults: mode
  \<^verbatim>\<open>auto\<close>, no baseline, and \<^verbatim>\<open>min_delta=0\<close>, so that the value compared,
  \<^verbatim>\<open>monitor_value - min_delta\<close>, is the monitored value itself.
\<close>

record EarlyStopping =
  monitor :: string
  patience :: nat
  restore_best_weights :: bool

definition early_stopping :: EarlyStopping where
  "early_stopping = \<lparr>monitor = ''val_predictor_rmse'', patience = 20,
     restore_best_weights = True\<rparr>"

text \<open>
  In mode \<^verbatim>\<open>auto\<close> the monitored quantity is to be maximised when its name
  ends with \<^verbatim>\<open>acc\<close>, \<^verbatim>\<open>accuracy\<close> or \<^verbatim>\<open>auc\<close>, and minimised otherwise.
\<close>

definition ends_with :: "string \<Rightarrow> string \<Rightarrow> bool" where
  "ends_with s suffix \<longleftrightarrow>
     length suffix \<le> length s \<and> drop (length s - length suffix) s = suffix"

definition monitor_is_max :: "EarlyStopping \<Rightarrow> bool" where
  "monitor_is_max cb \<longleftrightarrow>
     ends_with (monitor cb) ''acc'' \<or> ends_with (monitor cb) ''accuracy'' \<or>
     ends_with (monitor cb) ''auc''"

text \<open>
  The callback's state. \<^verbatim>\<open>on_train_begin\<close> sets \<open>best\<close> to plus infinity
  when the quantity is minimised and to minus infinity when it is maximised.
\<close>

record 'w es_state =
  wait :: nat
  stopped_epoch :: nat
  best :: npfloat
  best_weights :: "'w option"
  best_epoch :: nat

definition on_train_begin :: "EarlyStopping \<Rightarrow> 'w es_state" where
  "on_train_begin cb =
     \<lparr>wait = 0, stopped_epoch = 0, best = (if monitor_is_max cb then NegInf else PosInf),
      best_weights = None, best_epoch = 0\<rparr>"

definition is_improvement :: "EarlyStopping \<Rightarrow> npfloat \<Rightarrow> npfloat \<Rightarrow> bool" where
  "is_improvement cb monitor_value reference_value =
     (if monitor_is_max cb then np_greater monitor_value reference_value
      else np_less monitor_value reference_value)"

text \<open>
  \<^verbatim>\<open>EarlyStopping.on_epoch_end(epoch, logs)\<close>, with \<open>current\<close> the monitored
  value of the epoch and \<open>w\<close> the model's weights at its end:
  \<^verbatim>\<open>
  if self.restore_best_weights and self.best_weights is None:
      self.best_weights = self.model.get_weights()
      self.best_epoch = epoch
  self.wait += 1
  if self._is_improvement(current, self.best):
      self.best = current
      self.best_epoch = epoch
      if self.restore_best_weights:
          self.best_weights = self.model.get_weights()
      self.wait = 0
      return
  if self.wait >= self.patience and epoch > 0:
      self.stopped_epoch = epoch
      self.model.stop_training = True
      if self.restore_best_weights and self.best_weights is not None:
          self.model.set_weights(self.best_weights)
  \<close>
  The result is the callback's new state, the model's \<^verbatim>\<open>stop_training\<close>
  flag and the model's weights.
\<close>

definition on_epoch_end ::
  "EarlyStopping \<Rightarrow> nat \<Rightarrow> npfloat \<Rightarrow> 'w \<Rightarrow> 'w es_state \<Rightarrow> 'w es_state \<times> bool \<times> 'w" where
  "on_epoch_end cb epoch current w st =
     (let st1 = (if restore_best_weights cb \<and> best_weights st = None
                 then st\<lparr>best_weights := Some w, best_epoch := epoch\<rparr> else st);
          st2 = st1\<lparr>wait := wait st1 + 1\<rparr>
      in if is_improvement cb current (best st2)
         then (st2\<lparr>best := current, best_epoch := epoch,
                    best_weights := (if restore_best_weights cb then Some w
                                     else best_weights st2),
                    wait := 0\<rparr>, False, w)
         else if patience cb \<le> wait st2 \<and> 0 < epoch
         then (st2\<lparr>stopped_epoch := epoch\<rparr>, True,
               (case best_weights st2 of
                  Some bw \<Rightarrow> if restore_best_weights cb then bw else w
                | None \<Rightarrow> w))
         else (st2, False, w))"

text \<open>
  The state of \<^verbatim>\<open>model.fit\<close>: the model's weights, everything else that
  training carries from epoch to epoch (optimiser, learning rate, the other
  two callbacks), the early-stopping callback, the \<^verbatim>\<open>stop_training\<close> flag,
  the history of the monitored value, and the weights at the end of each
  epoch. The program does not keep the latter; they are recorded here beside
  the history.
\<close>

record ('w, 's) fit_state =
  weights :: 'w
  training :: 's
  early :: "'w es_state"
  stop_training :: bool
  history :: "npfloat list"
  epoch_weights :: "'w list"

text \<open>
  One epoch: \<open>train_epoch\<close> trains and validates (it returns the new weights,
  the new training state and the monitored validation error), then the
  callbacks run in the order of the list \<^verbatim>\<open>[early_stopping, reduce_lr,
  model_checkpoint]\<close>; the last two act on the training state only
  (\<open>other_callbacks\<close>), never on the weights.
\<close>

definition run_epoch ::
  "EarlyStopping \<Rightarrow> (nat \<Rightarrow> 'w \<times> 's \<Rightarrow> ('w \<times> 's) \<times> npfloat) \<Rightarrow> (nat \<Rightarrow> npfloat \<Rightarrow> 's \<Rightarrow> 's) \<Rightarrow>
   nat \<Rightarrow> ('w, 's) fit_state \<Rightarrow> ('w, 's) fit_state" where
  "run_epoch cb train_epoch other_callbacks epoch st =
     (let ((w, s), current) = train_epoch epoch (weights st, training st);
          (es, stop, w') = on_epoch_end cb epoch current w (early st)
      in \<lparr>weights = w', training = other_callbacks epoch current s, early = es,
          stop_training = stop, history = history st @ [current],
          epoch_weights = epoch_weights st @ [w]\<rparr>)"

text \<open>
  \<^verbatim>\<open>
  for epoch in range(initial_epoch, epochs):
      ... train, validate, callbacks.on_epoch_end(epoch, logs) ...
      if self.stop_training:
          break
  \<close>
\<close>

function fit_loop ::
  "EarlyStopping \<Rightarrow> (nat \<Rightarrow> 'w \<times> 's \<Rightarrow> ('w \<times> 's) \<times> npfloat) \<Rightarrow> (nat \<Rightarrow> npfloat \<Rightarrow> 's \<Rightarrow> 's) \<Rightarrow>
   nat \<Rightarrow> nat \<Rightarrow> ('w, 's) fit_state \<Rightarrow> ('w, 's) fit_state" where
  "fit_loop cb train_epoch other_callbacks epochs epoch st =
     (if epochs \<le> epoch then st
      else let st' = run_epoch cb train_epoch other_callbacks epoch st
           in if stop_training st' then st'
              else fit_loop cb train_epoch other_callbacks epochs (Suc epoch) st')"
  by pat_completeness auto
termination
  by (relation "measure (\<lambda>(cb, train_epoch, other_callbacks, epochs, epoch, st). epochs - epoch)")
    auto

declare fit_loop.simps [simp del]

definition fit ::
  "EarlyStopping \<Rightarrow> (nat \<Rightarrow> 'w \<times> 's \<Rightarrow> ('w \<times> 's) \<times> npfloat) \<Rightarrow> (nat \<Rightarrow> npfloat \<Rightarrow> 's \<Rightarrow> 's) \<Rightarrow>
   nat \<Rightarrow> 'w \<Rightarrow> 's \<Rightarrow> ('w, 's) fit_state" where
  "fit cb train_epoch other_callbacks epochs w0 s0 =
     fit_loop cb train_epoch other_callbacks epochs 0
       \<lparr>weights = w0, training = s0, early = on_train_begin cb, stop_training = False,
        history = [], epoch_weights = []\<rparr>"

subsection \<open>The epochs as the training step alone determines them\<close>

text \<open>
  Independently of the loop above, the sequence of epochs that the training
  step produces from the initial weights when nothing replaces the weights in
  between: \<open>epoch_start n\<close> is the weights and training state with which epoch
  \<open>n\<close> begins, \<open>weights_after n\<close> the weights at its end and \<open>monitored n\<close>
  its validation error. The properties of \<^verbatim>\<open>fit\<close> are stated against
  these.
\<close>

fun epoch_start ::
  "(nat \<Rightarrow> 'w \<times> 's \<Rightarrow> ('w \<times> 's) \<times> npfloat) \<Rightarrow> (nat \<Rightarrow> npfloat \<Rightarrow> 's \<Rightarrow> 's) \<Rightarrow> 'w \<Rightarrow> 's \<Rightarrow>
   nat \<Rightarrow> 'w \<times> 's" where
  "epoch_start train_epoch other_callbacks w0 s0 0 = (w0, s0)"
| "epoch_start train_epoch other_callbacks w0 s0 (Suc n) =
     (let ((w, s), current) = train_epoch n (epoch_start train_epoch other_callbacks w0 s0 n)
      in (w, other_callbacks n current s))"

definition weights_after ::
  "(nat \<Rightarrow> 'w \<times> 's \<Rightarrow> ('w \<times> 's) \<times> npfloat) \<Rightarrow> (nat \<Rightarrow> npfloat \<Rightarrow> 's \<Rightarrow> 's) \<Rightarrow> 'w \<Rightarrow> 's \<Rightarrow>
   nat \<Rightarrow> 'w" where
  "weights_after train_epoch other_callbacks w0 s0 n =
     fst (fst (train_epoch n (epoch_start train_epoch other_callbacks w0 s0 n)))"

definition monitored ::
  "(nat \<Rightarrow> 'w \<times> 's \<Rightarrow> ('w \<times> 's) \<times> npfloat) \<Rightarrow> (nat \<Rightarrow> npfloat \<Rightarrow> 's \<Rightarrow> 's) \<Rightarrow> 'w \<Rightarrow> 's \<Rightarrow>
   nat \<Rightarrow> npfloat" where
  "monitored train_epoch other_callbacks w0 s0 n =
     snd (train_epoch n (epoch_start train_epoch other_callbacks w0 s0 n))"

text \<open>
  What holds of the state of \<^verbatim>\<open>fit\<close> before epoch \<open>n\<close>: the history and the
  recorded weights are those of the epochs \<open>0\<close> to \<open>n - 1\<close>, no earlier value
  is below \<open>best\<close>, the patience is not yet used up, and the callback's
  best weights are those of the epoch \<open>best_epoch\<close>, which is either the
  last epoch that improved on \<open>best\<close> or, when no epoch has, epoch 0.
\<close>

definition fit_invariant ::
  "EarlyStopping \<Rightarrow> (nat \<Rightarrow> 'w \<times> 's \<Rightarrow> ('w \<times> 's) \<times> npfloat) \<Rightarrow>
   (nat \<Rightarrow> npfloat \<Rightarrow> 's \<Rightarrow> 's) \<Rightarrow> 'w \<Rightarrow> 's \<Rightarrow> nat \<Rightarrow> ('w, 's) fit_state \<Rightarrow> bool" where
  "fit_invariant cb tr oc w0 s0 n st \<longleftrightarrow>
     history st = map (monitored tr oc w0 s0) [0..<n] \<and>
     wait (early st) < patience cb \<and>
     epoch_weights st = map (weights_after tr oc w0 s0) [0..<n] \<and>
     (\<forall>e<n. \<not> np_less (monitored tr oc w0 s0 e) (best (early st))) \<and>
     (n = 0 \<longrightarrow> best (early st) = PosInf \<and> best_weights (early st) = None \<and>
        wait (early st) = 0) \<and>
     (0 < n \<longrightarrow>
        best_epoch (early st) < n \<and>
        best_weights (early st) = Some (weights_after tr oc w0 s0 (best_epoch (early st))) \<and>
        (best (early st) = monitored tr oc w0 s0 (best_epoch (early st)) \<and>
           best_epoch (early st) + wait (early st) + 1 = n \<or>
         best (early st) = PosInf \<and> best_epoch (early st) = 0 \<and> wait (early st) = n))"

text \<open>
  What holds of the state in which the callback has stopped the run at epoch
  \<open>n\<close>: the history and the recorded weights are those of the epochs \<open>0\<close> to
  \<open>n\<close>, the model's weights are those of the end of the epoch \<open>best_epoch\<close>,
  and the patience is exactly used up.
\<close>

definition fit_stopped ::
  "EarlyStopping \<Rightarrow> (nat \<Rightarrow> 'w \<times> 's \<Rightarrow> ('w \<times> 's) \<times> npfloat) \<Rightarrow>
   (nat \<Rightarrow> npfloat \<Rightarrow> 's \<Rightarrow> 's) \<Rightarrow> 'w \<Rightarrow> 's \<Rightarrow> nat \<Rightarrow> ('w, 's) fit_state \<Rightarrow> bool" where
  "fit_stopped cb tr oc w0 s0 n st \<longleftrightarrow>
     history st = map (monitored tr oc w0 s0) [0..<Suc n] \<and>
     epoch_weights st = map (weights_after tr oc w0 s0) [0..<Suc n] \<and>
     (\<forall>e<Suc n. \<not> np_less (monitored tr oc w0 s0 e) (best (early st))) \<and>
     stopped_epoch (early st) = n \<and>
     weights st = weights_after tr oc w0 s0 (best_epoch (early st)) \<and>
     (best (early st) = monitored tr oc w0 s0 (best_epoch (early st)) \<and>
        best_epoch (early st) + patience cb = n \<or>
      best (early st) = PosInf \<and> best_epoch (early st) = 0 \<and> patience cb = Suc n)"

text \<open>
  The callback as the notebook configures it: the monitored quantity is
  minimised, the best weights are restored and the patience is more than one
  epoch.
\<close>

definition min_mode :: "EarlyStopping \<Rightarrow> bool" where
  "min_mode cb \<longleftrightarrow> restore_best_weights cb \<and> \<not> monitor_is_max cb \<and> 1 < patience cb"

text \<open>
  Two training runs on which the stopping rule is exercised. In both, the
  weights after epoch \<open>e\<close> are the number \<open>e + 1\<close> and the validation error of
  the first epoch is 1; in the first run it is 2 in every later epoch, in the
  second the training diverges and it is NaN in every later epoch.
\<close>

definition example_training :: "nat \<Rightarrow> nat \<times> unit \<Rightarrow> (nat \<times> unit) \<times> npfloat" where
  "example_training epoch ws = ((Suc epoch, snd ws), if epoch = 0 then Finite 1 else Finite 2)"

definition diverging_training :: "nat \<Rightarrow> nat \<times> unit \<Rightarrow> (nat \<times> unit) \<times> npfloat" where
  "diverging_training epoch ws = ((Suc epoch, snd ws), if epoch = 0 then Finite 1 else NaN)"

section \<open>Properties of the selection\<close>

lemma rmse_defined:
  "length x1 = length x2 \<Longrightarrow> x1 \<noteq> [] \<Longrightarrow> \<exists>r. rmse x1 x2 = Inr r \<and> 0 \<le> r"
proof -
  assume len: "length x1 = length x2" and ne: "x1 \<noteq> []"
  have "0 \<le> sum_list (map2 (\<lambda>a b. (a - b)\<^sup>2) x1 x2)"
    by (rule sum_list_nonneg) auto
  then have "0 \<le> sum_list (map2 (\<lambda>a b. (a - b)\<^sup>2) x1 x2) / real (length x1)"
    by simp
  with len ne show ?thesis
    by (simp add: rmse_def mean_squared_error_def)
qed

text \<open>
  C1, as the claim states it, fails on a tie: with both scores equal to 1 the
  selection is the XGBoost model, not the linear one.
\<close>

theorem select_best_tie_counterexample:
  "\<not> ((1::real) = 1 \<longrightarrow> select_best 1 1 = LinearRegression)"
  by (simp add: select_best_def)

text \<open>
  C1 (amended): for every pair of scores the selection is the candidate with
  the strictly lower RMSE, and when the two scores are exactly equal it is the
  ensemble model (XGBoost).
\<close>

theorem select_best_lower_or_xgb:
  "(lr_rmse < xgb_rmse \<longrightarrow> select_best lr_rmse xgb_rmse = LinearRegression) \<and>
   (xgb_rmse < lr_rmse \<longrightarrow> select_best lr_rmse xgb_rmse = XGBRegressor) \<and>
   (lr_rmse = xgb_rmse \<longrightarrow> select_best lr_rmse xgb_rmse = XGBRegressor)"
  by (simp add: select_best_def)

theorem select_best_lower_or_xgb_witness:
  "select_best 1 2 = LinearRegression \<and> select_best 2 1 = XGBRegressor \<and>
   select_best 1 1 = XGBRegressor"
  using select_best_lower_or_xgb [of 1 2] select_best_lower_or_xgb [of 2 1]
    select_best_lower_or_xgb [of 1 1]
  by simp

text \<open>
  C10: the selection is total and resolves ties toward the ensemble model.
  Whenever the two predictions can be scored (same length as the validation
  labels, not empty) the selection step returns exactly one model and no error;
  and for every pair of scores, whenever the linear model's score is not
  strictly lower than the XGBoost score (equality included), the XGBoost model
  is selected.
\<close>

theorem select_best_total_ties_to_xgb:
  "(\<exists>!m. select_best lr_rmse xgb_rmse = m) \<and>
   (\<not> lr_rmse < xgb_rmse \<longrightarrow> select_best lr_rmse xgb_rmse = XGBRegressor) \<and>
   select_best lr_rmse lr_rmse = XGBRegressor \<and>
   (length lr_pred = length y_val \<and> length xgb_pred = length y_val \<and> y_val \<noteq> [] \<longrightarrow>
      (\<exists>a b. rmse y_val lr_pred = Inr a \<and> rmse y_val xgb_pred = Inr b \<and>
         test_and_select y_val lr_pred xgb_pred = Inr (a, b, select_best a b) \<and>
         (a = b \<longrightarrow> select_best a b = XGBRegressor)))"
proof -
  have sel: "\<not> a < b \<Longrightarrow> select_best a b = XGBRegressor" for a b
    by (simp add: select_best_def)
  have scored: "\<exists>a b. rmse y_val lr_pred = Inr a \<and> rmse y_val xgb_pred = Inr b \<and>
         test_and_select y_val lr_pred xgb_pred = Inr (a, b, select_best a b) \<and>
         (a = b \<longrightarrow> select_best a b = XGBRegressor)"
    if h: "length lr_pred = length y_val \<and> length xgb_pred = length y_val \<and> y_val \<noteq> []"
  proof -
    from h obtain a where a: "rmse y_val lr_pred = Inr a"
      using rmse_defined [of y_val lr_pred] by auto
    from h obtain b where b: "rmse y_val xgb_pred = Inr b"
      using rmse_defined [of y_val xgb_pred] by auto
    show ?thesis using a b sel by (simp add: test_and_select_def)
  qed
  show ?thesis using sel scored by simp
qed

theorem select_best_total_ties_to_xgb_witness:
  "select_best 3 3 = XGBRegressor \<and> select_best 5 3 = XGBRegressor \<and>
   (\<exists>a b. test_and_select [1, 2] [2, 3] [0, 1] = Inr (a, b, XGBRegressor))"
proof -
  have h: "length [2, 3 :: real] = length [1, 2 :: real] \<and>
           length [0, 1 :: real] = length [1, 2 :: real] \<and> [1, 2 :: real] \<noteq> []"
    by simp
  have t: "\<not> (5::real) < 3" by simp
  from select_best_total_ties_to_xgb [of 5 3 "[2, 3]" "[1, 2]" "[0, 1]"] h t
  have five: "select_best 5 3 = XGBRegressor"
    and scored: "\<exists>a b. rmse [1, 2] [2, 3] = Inr a \<and> rmse [1, 2] [0, 1] = Inr b \<and>
         test_and_select [1, 2] [2, 3] [0, 1] = Inr (a, b, select_best a b) \<and>
         (a = b \<longrightarrow> select_best a b = XGBRegressor)"
    by blast+
  have ab: "rmse [1, 2] [2, 3] = Inr 1" "rmse [1, 2] [0, 1] = Inr 1"
    by (simp_all add: rmse_def mean_squared_error_def)
  from scored ab have "\<exists>a b. test_and_select [1, 2] [2, 3] [0, 1] = Inr (a, b, XGBRegressor)"
    by auto
  moreover from select_best_total_ties_to_xgb [of 3 3 "[]" "[]" "[]"]
  have "select_best 3 3 = XGBRegressor" by blast
  ultimately show ?thesis using five by blast
qed

section \<open>Properties of the fingerprint encoder\<close>

lemma smiles_to_fp_Inr:
  "smiles_to_fp lib s radius n_bits = Inr fp \<Longrightarrow>
   \<exists>ecfp maccs.
     GetMorganFingerprintAsBitVect lib (MolFromSmiles lib s) radius n_bits = Inr ecfp \<and>
     GenMACCSKeys lib (MolFromSmiles lib s) = Inr maccs \<and>
     fp = ConvertToNumpyArray ecfp @ ConvertToNumpyArray maccs"
  by (auto simp: smiles_to_fp_def Let_def split: sum.splits)

lemma convert_length:
  "convert_smiles_to_fingerprints lib ss = Inr fps \<Longrightarrow> length fps = length ss"
  by (induction ss arbitrary: fps) (auto split: sum.splits)

lemma convert_nth:
  "convert_smiles_to_fingerprints lib ss = Inr fps \<Longrightarrow> k < length ss \<Longrightarrow>
   smiles_to_fp lib (ss ! k) 2 2000 = Inr (fps ! k)"
proof (induction ss arbitrary: fps k)
  case Nil
  then show ?case by simp
next
  case (Cons s ss)
  then show ?case by (cases k) (auto split: sum.splits)
qed


lemma load_and_preprocess_data_convert:
  "load_and_preprocess_data lib df = convert_smiles_to_fingerprints lib (map snd df)"
  by (simp add: load_and_preprocess_data_def)


lemma toy_bit_lengths: "rdkit_bit_lengths toy_rdkit"
  by (auto simp: rdkit_bit_lengths_def toy_rdkit_def toy_morgan_def toy_maccs_def
      split: option.splits)

text \<open>
  C5: whenever \<^verbatim>\<open>smiles_to_fp\<close> returns a fingerprint, its length is exactly
  the circular-fingerprint width plus the 167 substructure keys, whatever the
  molecule; with the default width of 2000 bits that is 2167.
\<close>

theorem smiles_to_fp_length:
  "rdkit_bit_lengths lib \<Longrightarrow> smiles_to_fp lib smiles radius n_bits = Inr fp \<Longrightarrow>
   length fp = n_bits + 167 \<and> (n_bits = 2000 \<longrightarrow> length fp = 2167)"
  by (auto simp: rdkit_bit_lengths_def ConvertToNumpyArray_def dest!: smiles_to_fp_Inr)

lemma toy_CCO: "\<exists>fp. smiles_to_fp toy_rdkit ''CCO'' 2 2000 = Inr fp"
  by (simp add: smiles_to_fp_def toy_rdkit_def toy_parse_def toy_morgan_def toy_maccs_def)


theorem smiles_to_fp_length_witness:
  "\<exists>fp. smiles_to_fp toy_rdkit ''CCO'' 2 2000 = Inr fp \<and> length fp = 2167"
proof -
  obtain fp where fp: "smiles_to_fp toy_rdkit ''CCO'' 2 2000 = Inr fp"
    using toy_CCO by blast
  from smiles_to_fp_length [OF toy_bit_lengths fp] fp show ?thesis by simp
qed

text \<open>
  C9: every row of a converted batch (pretraining, training and test data all
  go through \<^verbatim>\<open>convert_smiles_to_fingerprints\<close>) holds the circular-fingerprint
  bits of its descriptor at the indices 0 to 1999 and the substructure-key bits
  at the indices 2000 to 2166.
\<close>

theorem fingerprint_order:
  assumes "rdkit_bit_lengths lib"
    and "convert_smiles_to_fingerprints lib smiles_array = Inr fps"
    and "k < length smiles_array"
  shows "\<exists>ecfp maccs.
     GetMorganFingerprintAsBitVect lib (MolFromSmiles lib (smiles_array ! k)) 2 2000 = Inr ecfp \<and>
     GenMACCSKeys lib (MolFromSmiles lib (smiles_array ! k)) = Inr maccs \<and>
     length (fps ! k) = 2167 \<and>
     (\<forall>i<2000. fps ! k ! i = (if ecfp ! i then 1 else 0)) \<and>
     (\<forall>j<167. fps ! k ! (2000 + j) = (if maccs ! j then 1 else 0))"
proof -
  from convert_nth [OF assms(2,3)]
  obtain ecfp maccs where
    e: "GetMorganFingerprintAsBitVect lib (MolFromSmiles lib (smiles_array ! k)) 2 2000 = Inr ecfp"
    and m: "GenMACCSKeys lib (MolFromSmiles lib (smiles_array ! k)) = Inr maccs"
    and fp: "fps ! k = ConvertToNumpyArray ecfp @ ConvertToNumpyArray maccs"
    using smiles_to_fp_Inr by blast
  from assms(1) e m have le: "length ecfp = 2000" and lm: "length maccs = 167"
    by (auto simp: rdkit_bit_lengths_def)
  have "length (fps ! k) = 2167" using fp le lm by (simp add: ConvertToNumpyArray_def)
  moreover have "\<forall>i<2000. fps ! k ! i = (if ecfp ! i then 1 else 0)"
    using fp le by (simp add: ConvertToNumpyArray_def nth_append)
  moreover have "\<forall>j<167. fps ! k ! (2000 + j) = (if maccs ! j then 1 else 0)"
    using fp le lm by (simp add: ConvertToNumpyArray_def nth_append)
  ultimately show ?thesis using e m by blast
qed





lemma toy_convert_two:
  "\<exists>fps. convert_smiles_to_fingerprints toy_rdkit [''CCO'', ''N''] = Inr fps"
  by (simp add: smiles_to_fp_def toy_rdkit_def toy_parse_def toy_morgan_def toy_maccs_def)

theorem fingerprint_order_witness:
  "\<exists>fps. convert_smiles_to_fingerprints toy_rdkit [''CCO'', ''N''] = Inr fps \<and>
     length (fps ! 1) = 2167 \<and> fps ! 1 ! 0 = 1 \<and> fps ! 1 ! 1 = 0 \<and>
     fps ! 1 ! 2001 = 1 \<and> fps ! 1 ! 2000 = 0"
proof -
  obtain fps where fps: "convert_smiles_to_fingerprints toy_rdkit [''CCO'', ''N''] = Inr fps"
    using toy_convert_two by blast
  have k: "1 < length [''CCO'', ''N'']" by simp
  from fingerprint_order [OF toy_bit_lengths fps k]
  obtain ecfp maccs where
    e: "GetMorganFingerprintAsBitVect toy_rdkit (MolFromSmiles toy_rdkit ''N'') 2 2000 = Inr ecfp"
    and m: "GenMACCSKeys toy_rdkit (MolFromSmiles toy_rdkit ''N'') = Inr maccs"
    and len: "length (fps ! 1) = 2167"
    and lo: "\<forall>i<2000. fps ! 1 ! i = (if ecfp ! i then 1 else 0)"
    and hi: "\<forall>j<167. fps ! 1 ! (2000 + j) = (if maccs ! j then 1 else 0)"
    by auto
  from e have ecfp: "ecfp = map (\<lambda>i. i < 1) [0..<2000]"
    by (simp add: toy_rdkit_def toy_parse_def toy_morgan_def)
  from m have maccs: "maccs = map (\<lambda>i. 0 < i \<and> i = 1) [0..<167]"
    by (simp add: toy_rdkit_def toy_parse_def toy_maccs_def)
  have "fps ! 1 ! 0 = 1" using lo [rule_format, of 0] ecfp by simp
  moreover have "fps ! 1 ! 1 = 0" using lo [rule_format, of 1] ecfp by simp
  moreover have "fps ! 1 ! 2001 = 1" using hi [rule_format, of 1] maccs by simp
  moreover have "fps ! 1 ! 2000 = 0" using hi [rule_format, of 0] maccs by simp
  ultimately show ?thesis using fps len by blast
qed


section \<open>Properties of the networks\<close>

lemma activation_apply_length: "length (activation_apply act z) = length z"
  by (cases act) (simp_all add: activation_apply_def)

lemma layer_call_length: "length (layer_call mode lw l xs) = length xs"
  by (cases l; cases mode) simp_all

lemma layer_call_width:
  assumes "\<forall>x\<in>set xs. length x = d"
  shows "\<forall>y\<in>set (layer_call mode lw l xs). length y = compute_output_shape d [l]"
proof (cases l)
  case (Dense units act)
  then show ?thesis by (auto simp: activation_apply_length dense_row_def)
next
  case BatchNormalization
  with assms show ?thesis by (cases mode) (auto simp: normalize_row_def)
next
  case (LeakyReLU alpha)
  with assms show ?thesis by auto
next
  case (Dropout rate)
  with assms show ?thesis by (cases mode) (auto dest: set_zip_rightD)
qed

lemma compute_output_shape_Cons:
  "compute_output_shape d (l # ls) = compute_output_shape (compute_output_shape d [l]) ls"
  by (cases l) simp_all

lemma compute_output_shape_last_Dense:
  "compute_output_shape d (hidden @ [Dense units act]) = units"
proof (induction hidden arbitrary: d)
  case Nil
  show ?case by simp
next
  case (Cons l hidden)
  then show ?case by (cases l) simp_all
qed

lemma call_layers_length: "length (call_layers mode w k ls xs) = length xs"
  by (induction ls arbitrary: k xs) (simp_all add: layer_call_length)

lemma call_layers_width:
  "\<forall>x\<in>set xs. length x = d \<Longrightarrow>
   \<forall>y\<in>set (call_layers mode w k ls xs). length y = compute_output_shape d ls"
proof (induction ls arbitrary: d k xs)
  case Nil
  then show ?case by simp
next
  case (Cons l ls)
  from layer_call_width [OF Cons.prems]
  have "\<forall>y\<in>set (layer_call (map_option (\<lambda>noise. noise k) mode) (w k) l xs).
          length y = compute_output_shape d [l]" .
  from Cons.IH [OF this] show ?case
    by (subst compute_output_shape_Cons) simp
qed

lemma encoder_shapes:
  "input_shape (create_encoder d) = d" "output_shape (create_encoder d) = 2167"
  by (simp_all add: create_encoder_def output_shape_def)

lemma decoder_shapes:
  "input_shape (create_decoder d) = d" "output_shape (create_decoder d) = 2167"
  by (simp_all add: create_decoder_def output_shape_def)

lemma predictor_shapes:
  "input_shape (create_predictor d) = d" "output_shape (create_predictor d) = 1"
  by (simp_all add: create_predictor_def output_shape_def)

lemma call_model_shape:
  assumes "\<forall>x\<in>set xs. length x = input_shape m"
  shows "\<exists>ys. call_model m w mode xs = Inr ys \<and> length ys = length xs \<and>
           (\<forall>y\<in>set ys. length y = output_shape m)"
  using assms call_layers_width [OF assms, of mode w 0 "layers m"]
  by (simp add: call_model_def call_layers_length output_shape_def)

text \<open>
  C6: the encoder that \<^verbatim>\<open>create_combined_model\<close> returns takes rows of width
  2167 and, for every input batch, whatever the weights and in training as in
  inference, returns rows of the same width 2167. The width of the output is
  that of the last dense layer, whatever the layers before it are.
\<close>

theorem encoder_output_width:
  "\<exists>model encoder.
     create_combined_model 2167 = Inr (model, encoder) \<and>
     input_shape encoder = 2167 \<and> output_shape encoder = input_shape encoder \<and>
     (\<forall>hidden d. compute_output_shape d (hidden @ [Dense 2167 Linear]) = 2167) \<and>
     (\<forall>w mode xs. (\<forall>x\<in>set xs. length x = input_shape encoder) \<longrightarrow>
        (\<exists>ys. call_model encoder w mode xs = Inr ys \<and> length ys = length xs \<and>
           (\<forall>i<length xs. length (ys ! i) = length (xs ! i))))"
proof -
  let ?enc = "create_encoder 2167"
  have c: "create_combined_model 2167 =
      Inr (\<lparr>combined_input = 2167, combined_encoder = ?enc,
            combined_decoder = create_decoder 2167,
            combined_predictor = create_predictor 2167\<rparr>, ?enc)"
    by (simp add: create_combined_model_def Let_def encoder_shapes decoder_shapes
        predictor_shapes)
  have v: "\<exists>ys. call_model ?enc w mode xs = Inr ys \<and> length ys = length xs \<and>
           (\<forall>i<length xs. length (ys ! i) = length (xs ! i))"
    if h: "\<forall>x\<in>set xs. length x = input_shape ?enc" for w mode xs
  proof -
    from call_model_shape [OF h, of w mode] obtain ys where
      ys: "call_model ?enc w mode xs = Inr ys" "length ys = length xs"
        "\<forall>y\<in>set ys. length y = output_shape ?enc"
      by blast
    have "length (ys ! i) = length (xs ! i)" if "i < length xs" for i
      using that ys(2,3) h by (simp add: encoder_shapes)
    with ys show ?thesis by blast
  qed
  show ?thesis
    using c v by (simp add: encoder_shapes compute_output_shape_last_Dense)
qed

theorem encoder_output_width_witness:
  "\<exists>model encoder ys.
     create_combined_model 2167 = Inr (model, encoder) \<and>
     call_model encoder example_weights None [replicate 2167 0, replicate 2167 1] = Inr ys \<and>
     length ys = 2 \<and> length (ys ! 1) = 2167"
proof -
  let ?xs = "[replicate 2167 0, replicate 2167 (1::real)]"
  from encoder_output_width obtain model encoder where
    c: "create_combined_model 2167 = Inr (model, encoder)"
    and i: "input_shape encoder = 2167"
    and v: "\<forall>w mode xs. (\<forall>x\<in>set xs. length x = input_shape encoder) \<longrightarrow>
        (\<exists>ys. call_model encoder w mode xs = Inr ys \<and> length ys = length xs \<and>
           (\<forall>i<length xs. length (ys ! i) = length (xs ! i)))"
    by blast
  have h: "\<forall>x\<in>set ?xs. length x = input_shape encoder"
    using i by simp
  from v h have "\<exists>ys. call_model encoder example_weights None ?xs = Inr ys \<and>
      length ys = length ?xs \<and> (\<forall>i<length ?xs. length (ys ! i) = length (?xs ! i))"
    by blast
  then obtain ys where run: "call_model encoder example_weights None ?xs = Inr ys"
    and len: "length ys = length ?xs"
    and wid: "\<forall>i<length ?xs. length (ys ! i) = length (?xs ! i)"
    by blast
  from wid have "length (ys ! 1) = length (?xs ! 1)" by simp
  then have "length (ys ! 1) = 2167" by simp
  moreover from len have "length ys = 2" by simp
  ultimately show ?thesis using c run by blast
qed

section \<open>Properties of the training loop\<close>

lemma np_less_irrefl: "\<not> np_less x x"
  by (cases x) simp_all

lemma np_less_trans: "np_less x y \<Longrightarrow> np_less y z \<Longrightarrow> np_less x z"
  by (cases x; cases y; cases z) simp_all

lemma np_less_PosInf: "np_less x y \<Longrightarrow> np_less x PosInf"
  by (cases x; cases y) simp_all

lemma not_np_less_imp_less_equal:
  "\<not> np_less x y \<Longrightarrow> x \<noteq> NaN \<Longrightarrow> y \<noteq> NaN \<Longrightarrow> np_less_equal y x"
  by (cases x; cases y) (auto simp: np_less_equal_def)

lemma early_stopping_min_mode: "min_mode early_stopping"
  by (simp add: min_mode_def early_stopping_def monitor_is_max_def ends_with_def)

lemma on_epoch_end_improved:
  assumes "min_mode cb" and "np_less current (best st)"
  shows "on_epoch_end cb epoch current w st =
     (st\<lparr>best_weights := Some w, best_epoch := epoch, best := current, wait := 0\<rparr>,
      False, w)"
  using assms
  by (simp add: on_epoch_end_def min_mode_def is_improvement_def Let_def)

lemma on_epoch_end_first_worse:
  assumes "min_mode cb" and "\<not> np_less current (best st)" and "best_weights st = None"
  shows "on_epoch_end cb epoch current w st =
     (if patience cb \<le> wait st + 1 \<and> 0 < epoch
      then (st\<lparr>best_weights := Some w, best_epoch := epoch, wait := wait st + 1,
                stopped_epoch := epoch\<rparr>, True, w)
      else (st\<lparr>best_weights := Some w, best_epoch := epoch, wait := wait st + 1\<rparr>, False, w))"
  using assms
  by (simp add: on_epoch_end_def min_mode_def is_improvement_def Let_def)

lemma on_epoch_end_worse:
  assumes "min_mode cb" and "\<not> np_less current (best st)" and "best_weights st = Some bw"
  shows "on_epoch_end cb epoch current w st =
     (if patience cb \<le> wait st + 1 \<and> 0 < epoch
      then (st\<lparr>wait := wait st + 1, stopped_epoch := epoch\<rparr>, True, bw)
      else (st\<lparr>wait := wait st + 1\<rparr>, False, w))"
  using assms
  by (simp add: on_epoch_end_def min_mode_def is_improvement_def Let_def)

lemma run_epoch_eq:
  assumes "train_epoch n (weights st, training st) = ((w, s), c)"
    and "on_epoch_end cb n c w (early st) = (es, stop, w')"
  shows "run_epoch cb train_epoch other_callbacks n st =
     \<lparr>weights = w', training = other_callbacks n c s, early = es, stop_training = stop,
      history = history st @ [c], epoch_weights = epoch_weights st @ [w]\<rparr>"
  using assms by (simp add: run_epoch_def)


lemma run_epoch_step:
  assumes mm: "min_mode cb" and inv: "fit_invariant cb tr oc w0 s0 n st"
    and start: "(weights st, training st) = epoch_start tr oc w0 s0 n"
  shows "(\<not> stop_training (run_epoch cb tr oc n st) \<longrightarrow>
        fit_invariant cb tr oc w0 s0 (Suc n) (run_epoch cb tr oc n st) \<and>
        (weights (run_epoch cb tr oc n st), training (run_epoch cb tr oc n st)) =
          epoch_start tr oc w0 s0 (Suc n)) \<and>
     (stop_training (run_epoch cb tr oc n st) \<longrightarrow>
        fit_stopped cb tr oc w0 s0 n (run_epoch cb tr oc n st))"
proof -
  let ?mon = "monitored tr oc w0 s0" and ?wts = "weights_after tr oc w0 s0"
  let ?es = "early st" and ?c = "monitored tr oc w0 s0 n" and ?w = "weights_after tr oc w0 s0 n"
  obtain s where tr: "tr n (weights st, training st) = ((?w, s), ?c)"
    using start by (cases "tr n (epoch_start tr oc w0 s0 n)")
      (auto simp: monitored_def weights_after_def)
  have next_start: "epoch_start tr oc w0 s0 (Suc n) = (?w, oc n ?c s)"
    using tr start by simp
  from mm have pat: "1 < patience cb" by (simp add: min_mode_def)
  from inv have h: "history st = map ?mon [0..<n]"
    and ew: "epoch_weights st = map ?wts [0..<n]"
    and low: "\<forall>e<n. \<not> np_less (?mon e) (best ?es)"
    and wp: "wait ?es < patience cb"
    by (simp_all add: fit_invariant_def)
  have h': "history st @ [?c] = map ?mon [0..<Suc n]" using h by simp
  have ew': "epoch_weights st @ [?w] = map ?wts [0..<Suc n]" using ew by simp
  show ?thesis
  proof (cases "np_less ?c (best ?es)")
    case True
    have low': "\<forall>e<Suc n. \<not> np_less (?mon e) ?c"
    proof (intro allI impI)
      fix e assume "e < Suc n"
      show "\<not> np_less (?mon e) ?c"
      proof (cases "e = n")
        case True
        then show ?thesis by (simp add: np_less_irrefl)
      next
        case False
        with \<open>e < Suc n\<close> low have "\<not> np_less (?mon e) (best ?es)" by simp
        with \<open>np_less ?c (best ?es)\<close> show ?thesis using np_less_trans by blast
      qed
    qed
    have r: "run_epoch cb tr oc n st =
        \<lparr>weights = ?w, training = oc n ?c s,
         early = ?es\<lparr>best_weights := Some ?w, best_epoch := n, best := ?c, wait := 0\<rparr>,
         stop_training = False, history = history st @ [?c],
         epoch_weights = epoch_weights st @ [?w]\<rparr>"
      using tr on_epoch_end_improved [OF mm True] by (rule run_epoch_eq)
    show ?thesis unfolding r using h' ew' low' next_start pat
      by (simp add: fit_invariant_def)
  next
    case worse: False
    have low': "\<forall>e<Suc n. \<not> np_less (?mon e) (best ?es)"
      using low worse by (simp add: less_Suc_eq)
    show ?thesis
    proof (cases "n = 0")
      case True
      with inv have b: "best ?es = PosInf" and bw: "best_weights ?es = None"
        and wt: "wait ?es = 0"
        by (simp_all add: fit_invariant_def)
      have oe: "on_epoch_end cb n ?c ?w ?es =
          (?es\<lparr>best_weights := Some ?w, best_epoch := n, wait := wait ?es + 1\<rparr>, False, ?w)"
        using on_epoch_end_first_worse [OF mm worse bw, of n ?w] True by simp
      show ?thesis unfolding run_epoch_eq [where train_epoch = tr, OF tr oe]
        using h' ew' low' next_start True b wt pat
        by (simp add: fit_invariant_def)
    next
      case False
      let ?b = "best_epoch ?es"
      from False inv have be: "?b < n" and bw: "best_weights ?es = Some (?wts ?b)"
        and dis: "best ?es = ?mon ?b \<and> ?b + wait ?es + 1 = n \<or>
                  best ?es = PosInf \<and> ?b = 0 \<and> wait ?es = n"
        by (simp_all add: fit_invariant_def)
      let ?stop = "patience cb \<le> wait ?es + 1 \<and> 0 < n"
      have oe: "on_epoch_end cb n ?c ?w ?es =
          (if ?stop then (?es\<lparr>wait := wait ?es + 1, stopped_epoch := n\<rparr>, True, ?wts ?b)
           else (?es\<lparr>wait := wait ?es + 1\<rparr>, False, ?w))"
        by (rule on_epoch_end_worse [OF mm worse bw])
      show ?thesis
      proof (cases ?stop)
        case True
        with oe have oe': "on_epoch_end cb n ?c ?w ?es =
            (?es\<lparr>wait := wait ?es + 1, stopped_epoch := n\<rparr>, True, ?wts ?b)"
          by simp
        from True wp have exact: "wait ?es + 1 = patience cb" by simp
        show ?thesis unfolding run_epoch_eq [where train_epoch = tr, OF tr oe']
          using h' ew' low' be bw dis exact
          by (auto simp: fit_stopped_def)
      next
        case nostop: False
        with oe have oe': "on_epoch_end cb n ?c ?w ?es = (?es\<lparr>wait := wait ?es + 1\<rparr>, False, ?w)"
          by simp
        from nostop False have "wait ?es + 1 < patience cb" by simp
        then show ?thesis unfolding run_epoch_eq [where train_epoch = tr, OF tr oe']
          using h' ew' low' be bw dis next_start
          by (auto simp: fit_invariant_def)
      qed
    qed
  qed
qed

lemma fit_loop_result:
  "min_mode cb \<Longrightarrow> fit_invariant cb train_epoch other_callbacks w0 s0 epoch st \<Longrightarrow>
   (weights st, training st) = epoch_start train_epoch other_callbacks w0 s0 epoch \<Longrightarrow>
   \<not> stop_training st \<Longrightarrow>
   stop_training (fit_loop cb train_epoch other_callbacks epochs epoch st) \<Longrightarrow>
   \<exists>n<epochs. fit_stopped cb train_epoch other_callbacks w0 s0 n
       (fit_loop cb train_epoch other_callbacks epochs epoch st)"
proof (induction cb train_epoch other_callbacks epochs epoch st rule: fit_loop.induct)
  case (1 cb train_epoch other_callbacks epochs epoch st)
  let ?st' = "run_epoch cb train_epoch other_callbacks epoch st"
  show ?case
  proof (cases "epochs \<le> epoch")
    case True
    then have "fit_loop cb train_epoch other_callbacks epochs epoch st = st"
      by (subst fit_loop.simps) simp
    with "1.prems"(4,5) show ?thesis by simp
  next
    case False
    note step = run_epoch_step [OF "1.prems"(1,2,3)]
    show ?thesis
    proof (cases "stop_training ?st'")
      case True
      have r: "fit_loop cb train_epoch other_callbacks epochs epoch st = ?st'"
        using False True by (subst fit_loop.simps) simp
      from False have "epoch < epochs" by simp
      with step True show ?thesis unfolding r by blast
    next
      case nostop: False
      have r: "fit_loop cb train_epoch other_callbacks epochs epoch st =
          fit_loop cb train_epoch other_callbacks epochs (Suc epoch) ?st'"
        using False nostop by (subst fit_loop.simps) simp
      from step nostop have inv: "fit_invariant cb train_epoch other_callbacks w0 s0 (Suc epoch) ?st'"
        and start: "(weights ?st', training ?st') =
            epoch_start train_epoch other_callbacks w0 s0 (Suc epoch)"
        by blast+
      from "1.prems"(5) have stop: "stop_training
          (fit_loop cb train_epoch other_callbacks epochs (Suc epoch) ?st')"
        unfolding r .
      from "1.IH" [OF False refl nostop "1.prems"(1) inv start nostop stop]
      show ?thesis unfolding r .
    qed
  qed
qed

lemma fit_invariant_initial:
  "min_mode cb \<Longrightarrow>
   fit_invariant cb train_epoch other_callbacks w0 s0 0
     \<lparr>weights = w0, training = s0, early = on_train_begin cb,
      stop_training = False, history = [], epoch_weights = []\<rparr>"
  by (simp add: fit_invariant_def on_train_begin_def min_mode_def)

text \<open>
  C2 (amended): when the training of cell 30 is ended by the early-stopping
  callback, the weights left in the model are those of the end of the best
  epoch: no epoch that was run, the later ones included, has a strictly lower
  monitored validation error, and when none of the observed errors is NaN the
  best epoch's error is less than or equal to that of every epoch run. The
  run ends exactly 20 epochs after the best epoch (or after 20 epochs, none
  of which had an error below infinity, with the first epoch taken as the
  best), so the last epoch's weights are not the ones kept. The history and
  the weights are those that the training step produces epoch after epoch,
  and at most 100 epochs are run.
\<close>

theorem early_stopping_restores_best:
  assumes "r = fit early_stopping train_epoch other_callbacks 100 w0 s0"
    and "stop_training r"
  shows "length (history r) \<le> 100 \<and>
     history r = map (monitored train_epoch other_callbacks w0 s0) [0..<length (history r)] \<and>
     epoch_weights r =
       map (weights_after train_epoch other_callbacks w0 s0) [0..<length (history r)] \<and>
     stopped_epoch (early r) + 1 = length (history r) \<and>
     (length (history r) = best_epoch (early r) + 21 \<or>
      length (history r) = 20 \<and> best_epoch (early r) = 0 \<and>
        (\<forall>e<20. \<not> np_less (history r ! e) PosInf)) \<and>
     best_epoch (early r) + 20 \<le> length (history r) \<and>
     weights r = weights_after train_epoch other_callbacks w0 s0 (best_epoch (early r)) \<and>
     weights r = epoch_weights r ! best_epoch (early r) \<and>
     (\<forall>e<length (history r). \<not> np_less (history r ! e) (history r ! best_epoch (early r))) \<and>
     ((\<forall>e<length (history r). history r ! e \<noteq> NaN) \<longrightarrow>
        (\<forall>e<length (history r).
           np_less_equal (history r ! best_epoch (early r)) (history r ! e)))"
proof -
  let ?mon = "monitored train_epoch other_callbacks w0 s0"
  let ?wts = "weights_after train_epoch other_callbacks w0 s0"
  let ?st0 = "\<lparr>weights = w0, training = s0, early = on_train_begin early_stopping,
     stop_training = False, history = [], epoch_weights = []\<rparr>"
  let ?b = "best_epoch (early r)"
  have r: "r = fit_loop early_stopping train_epoch other_callbacks 100 0 ?st0"
    using assms(1) by (simp add: fit_def)
  have start: "(weights ?st0, training ?st0) = epoch_start train_epoch other_callbacks w0 s0 0"
    by simp
  have nostop: "\<not> stop_training ?st0" by simp
  from fit_loop_result [OF early_stopping_min_mode
      fit_invariant_initial [OF early_stopping_min_mode] start nostop] assms(2)
  obtain n where n: "n < 100"
    and st: "fit_stopped early_stopping train_epoch other_callbacks w0 s0 n r"
    unfolding r by blast
  from st have h: "history r = map ?mon [0..<Suc n]"
    and ew: "epoch_weights r = map ?wts [0..<Suc n]"
    and low: "\<forall>e<Suc n. \<not> np_less (?mon e) (best (early r))"
    and se: "stopped_epoch (early r) = n"
    and w: "weights r = ?wts ?b"
    and dis: "best (early r) = ?mon ?b \<and> ?b + 20 = n \<or>
              best (early r) = PosInf \<and> ?b = 0 \<and> 20 = Suc n"
    by (simp_all add: fit_stopped_def early_stopping_def)
  from dis have b: "?b < Suc n" by auto
  from h have len: "length (history r) = Suc n" by simp
  have nth: "history r ! e = ?mon e" if "e < Suc n" for e
    using that unfolding h by (simp only: nth_map_upt add_0 diff_zero)
  have wnth: "epoch_weights r ! ?b = ?wts ?b"
    using b unfolding ew by (simp only: nth_map_upt add_0 diff_zero)
  have best: "\<not> np_less (?mon e) (?mon ?b)" if "e < Suc n" for e
  proof
    assume l: "np_less (?mon e) (?mon ?b)"
    from dis show False
    proof
      assume "best (early r) = ?mon ?b \<and> ?b + 20 = n"
      with low that l show False by simp
    next
      assume "best (early r) = PosInf \<and> ?b = 0 \<and> 20 = Suc n"
      with low that np_less_PosInf [OF l] show False by simp
    qed
  qed
  have le: "np_less_equal (?mon ?b) (?mon e)"
    if "\<forall>e<Suc n. ?mon e \<noteq> NaN" and "e < Suc n" for e
    using best [OF that(2)] that b by (intro not_np_less_imp_less_equal) auto
  have c1: "length (history r) \<le> 100" using len n by simp
  have c2: "history r = map ?mon [0..<length (history r)]" using h len by simp
  have c3: "epoch_weights r = map ?wts [0..<length (history r)]" using ew len by simp
  have c4: "stopped_epoch (early r) + 1 = length (history r)" using se len by simp
  have c5: "length (history r) = ?b + 21 \<or>
      length (history r) = 20 \<and> ?b = 0 \<and> (\<forall>e<20. \<not> np_less (history r ! e) PosInf)"
  proof -
    from dis show ?thesis
    proof
      assume "best (early r) = ?mon ?b \<and> ?b + 20 = n"
      with len show ?thesis by simp
    next
      assume a: "best (early r) = PosInf \<and> ?b = 0 \<and> 20 = Suc n"
      then have "\<forall>e<20. \<not> np_less (history r ! e) PosInf"
        using low nth by simp
      with a len show ?thesis by simp
    qed
  qed
  have c6: "?b + 20 \<le> length (history r)" using dis len by auto
  have c7: "weights r = epoch_weights r ! ?b" using w wnth by simp
  have c8: "\<forall>e<length (history r). \<not> np_less (history r ! e) (history r ! ?b)"
    using best nth b len by simp
  have c9: "(\<forall>e<length (history r). history r ! e \<noteq> NaN) \<longrightarrow>
        (\<forall>e<length (history r). np_less_equal (history r ! ?b) (history r ! e))"
    using le nth b len by simp
  from c1 c2 c3 c4 c5 c6 w c7 c8 c9 show ?thesis by blast
qed

lemma example_fit_stops:
  "stop_training (fit early_stopping example_training (\<lambda>epoch current s. s) 100 0 ())"
  by code_simp

lemma example_fit_run:
  "weights (fit early_stopping example_training (\<lambda>epoch current s. s) 100 0 ()) = 1"
  "length (history (fit early_stopping example_training (\<lambda>epoch current s. s) 100 0 ())) = 21"
  by code_simp+

text \<open>
  C2, as the claim states it, fails when the training diverges: with a
  validation error of 1 in the first epoch and NaN in the later ones, the
  callback stops the run after 21 epochs and restores the weights of the
  first epoch, whose error is not less than or equal to the NaN of the second
  epoch.
\<close>

theorem diverging_training_counterexample:
  "stop_training (fit early_stopping diverging_training (\<lambda>epoch current s. s) 100 0 ()) \<and>
   best_epoch (early (fit early_stopping diverging_training (\<lambda>epoch current s. s) 100 0 ())) = 0 \<and>
   weights (fit early_stopping diverging_training (\<lambda>epoch current s. s) 100 0 ()) =
     epoch_weights (fit early_stopping diverging_training (\<lambda>epoch current s. s) 100 0 ()) ! 0 \<and>
   length (history (fit early_stopping diverging_training (\<lambda>epoch current s. s) 100 0 ())) = 21 \<and>
   \<not> np_less_equal
       (history (fit early_stopping diverging_training (\<lambda>epoch current s. s) 100 0 ()) ! 0)
       (history (fit early_stopping diverging_training (\<lambda>epoch current s. s) 100 0 ()) ! 1)"
  by code_simp


lemma example_fit_no_NaN:
  "list_all (\<lambda>v. v \<noteq> NaN)
     (history (fit early_stopping example_training (\<lambda>epoch current s. s) 100 0 ()))"
  by code_simp

theorem early_stopping_restores_best_witness:
  "stop_training (fit early_stopping example_training (\<lambda>epoch current s. s) 100 0 ()) \<and>
   length (history (fit early_stopping example_training (\<lambda>epoch current s. s) 100 0 ())) = 21 \<and>
   best_epoch (early (fit early_stopping example_training (\<lambda>epoch current s. s) 100 0 ())) + 20
     \<le> length (history (fit early_stopping example_training (\<lambda>epoch current s. s) 100 0 ())) \<and>
   weights (fit early_stopping example_training (\<lambda>epoch current s. s) 100 0 ()) =
     weights_after example_training (\<lambda>epoch current s. s) 0 ()
       (best_epoch (early (fit early_stopping example_training (\<lambda>epoch current s. s) 100 0 ()))) \<and>
   weights (fit early_stopping example_training (\<lambda>epoch current s. s) 100 0 ()) = 1 \<and>
   np_less_equal
     (history (fit early_stopping example_training (\<lambda>epoch current s. s) 100 0 ()) !
        best_epoch (early (fit early_stopping example_training (\<lambda>epoch current s. s) 100 0 ())))
     (history (fit early_stopping example_training (\<lambda>epoch current s. s) 100 0 ()) ! 20)"
proof -
  let ?r = "fit early_stopping example_training (\<lambda>epoch current s. s) 100 0 ()"
  note t = early_stopping_restores_best [OF refl example_fit_stops]
  have nn: "\<forall>e<length (history ?r). history ?r ! e \<noteq> NaN"
    using example_fit_no_NaN by (simp add: list_all_length)
  from t nn have "\<forall>e<length (history ?r).
      np_less_equal (history ?r ! best_epoch (early ?r)) (history ?r ! e)"
    by blast
  then have "np_less_equal (history ?r ! best_epoch (early ?r)) (history ?r ! 20)"
    using example_fit_run(2) by simp
  with t example_fit_stops example_fit_run show ?thesis by blast
qed

end
